theory Spec2Isabelle
  imports Main
begin

section \<open>Residual blocks of the network utilities\<close>

text \<open>
  The module \<^verbatim>\<open>distar/ctools/torch_utils/network/res_block.py\<close> composes primitives of
  the tensor framework into three residual blocks:
  \<^verbatim>\<open>ResBlock\<close>, \<^verbatim>\<open>ResFCBlock\<close> and \<^verbatim>\<open>ResFCBlock2\<close>. Tensors are kept abstract (a type
  variable \<open>'t\<close>); an exception is a value of type \<open>error\<close>, and every callable module is
  a function that returns either an error or a tensor.
\<close>

subsection \<open>Errors and callable modules\<close>

datatype error =
    AssertionError string
  | PrimitiveError string

type_synonym 't module = "'t \<Rightarrow> error + 't"

definition and_then :: "error + 'a \<Rightarrow> ('a \<Rightarrow> error + 'b) \<Rightarrow> error + 'b" where
  "and_then r f = (case r of Inl e \<Rightarrow> Inl e | Inr v \<Rightarrow> f v)"

subsection \<open>The tensor framework\<close>

text \<open>
  What the module takes from outside: the convolution and linear layers, the
  normalization selector, tensor addition and the shape of a tensor. A layer with trained
  parameters receives them from the initialiser: \<open>fresh_param env n\<close> is what the
  \<open>n\<close>-th parameterised layer created gets, and a constructor threads the number of
  layers created so far.
\<close>

record ('t, 'w) framework =
  fresh_param :: "nat \<Rightarrow> 'w"
  Conv2d :: "nat \<Rightarrow> nat \<Rightarrow> nat \<Rightarrow> nat \<Rightarrow> nat \<Rightarrow> 'w \<Rightarrow> 't module"
  Linear :: "nat \<Rightarrow> nat \<Rightarrow> 'w \<Rightarrow> 't module"
  build_normalization :: "string option \<Rightarrow> error + (nat \<Rightarrow> 't module)"
  tensor_add :: "'t \<Rightarrow> 't \<Rightarrow> error + 't"
  shape :: "'t \<Rightarrow> nat list"

text \<open>A sequence of modules applied one after the other; the first error ends it.\<close>

fun sequential :: "'t module list \<Rightarrow> 't module" where
  "sequential [] x = Inr x"
| "sequential (m # ms) x = and_then (m x) (sequential ms)"

text \<open>
  Modelled from the spec: \<^verbatim>\<open>conv2d_block\<close> of \<^verbatim>\<open>nn_module.py\<close> is not among the sources.
  The spec describes it as a 2D convolution followed by an optional normalization and an
  optional activation, as one callable unit. The normalization is present exactly when
  \<^verbatim>\<open>norm_type\<close> is not \<^verbatim>\<open>None\<close>, and is then what the selector builds for the output
  channels; the activation is present exactly when it is not \<^verbatim>\<open>None\<close>. The convolution
  layer is created first, so it counts as created also when the selector then fails.
\<close>

definition act_layers :: "'t module option \<Rightarrow> 't module list" where
  "act_layers activation = (case activation of None \<Rightarrow> [] | Some a \<Rightarrow> [a])"

definition norm_layers ::
  "('t, 'w) framework \<Rightarrow> nat \<Rightarrow> string option \<Rightarrow> error + 't module list" where
  "norm_layers env out_channels norm_type =
     (case norm_type of
        None \<Rightarrow> Inr []
      | Some k \<Rightarrow>
          (case build_normalization env (Some k) of
             Inl e \<Rightarrow> Inl e
           | Inr mk \<Rightarrow> Inr [mk out_channels]))"

definition conv2d_block ::
  "('t, 'w) framework \<Rightarrow> nat \<Rightarrow> nat \<Rightarrow> nat \<Rightarrow> nat \<Rightarrow> nat \<Rightarrow> 't module option \<Rightarrow> string option
     \<Rightarrow> nat \<Rightarrow> (error + 't module) \<times> nat" where
  "conv2d_block env in_channels out_channels kernel_size stride padding activation norm_type n =
     (let conv = Conv2d env in_channels out_channels kernel_size stride padding (fresh_param env n) in
      case norm_layers env out_channels norm_type of
        Inl e \<Rightarrow> (Inl e, Suc n)
      | Inr ns \<Rightarrow> (Inr (sequential (conv # ns @ act_layers activation)), Suc n))"

text \<open>
  Modelled from the spec: \<^verbatim>\<open>fc_block\<close> of \<^verbatim>\<open>nn_module.py\<close> is not among the sources.
  The spec describes it as a linear transform followed by an optional normalization and
  an optional activation.
\<close>

definition fc_block ::
  "('t, 'w) framework \<Rightarrow> nat \<Rightarrow> nat \<Rightarrow> 't module option \<Rightarrow> string option
     \<Rightarrow> nat \<Rightarrow> (error + 't module) \<times> nat" where
  "fc_block env in_channels out_channels activation norm_type n =
     (let fc = Linear env in_channels out_channels (fresh_param env n) in
      case norm_layers env out_channels norm_type of
        Inl e \<Rightarrow> (Inl e, Suc n)
      | Inr ns \<Rightarrow> (Inr (sequential (fc # ns @ act_layers activation)), Suc n))"

subsection \<open>ResBlock\<close>

record 't ResBlock =
  act :: "'t module"
  res_type :: string
  conv1 :: "'t module"
  conv2 :: "'t module"

text \<open>
  \<^verbatim>\<open>ResBlock.__init__\<close>, statement by statement: the assertion on \<^verbatim>\<open>res_type\<close> comes
  before the two calls of \<^verbatim>\<open>conv2d_block\<close>. The second component of the result is the
  number of parameterised layers created when the constructor returns or raises. The
  arguments are all given (the defaults of the source are an activation, \<^verbatim>\<open>'BN'\<close> and
  \<^verbatim>\<open>'basic'\<close>), and assertions are checked, as the interpreter does unless told otherwise.
\<close>

definition ResBlock_init ::
  "('t, 'w) framework \<Rightarrow> nat \<Rightarrow> 't module \<Rightarrow> string option \<Rightarrow> string \<Rightarrow> nat
     \<Rightarrow> (error + 't ResBlock) \<times> nat" where
  "ResBlock_init env in_channels activation norm_type rtype n =
     (if rtype \<notin> set [''basic'', ''bottleneck'']
      then (Inl (AssertionError (''residual type only support basic and bottleneck, not:'' @ rtype)), n)
      else
        case conv2d_block env in_channels in_channels 3 1 1 (Some activation) norm_type n of
          (Inl e, n1) \<Rightarrow> (Inl e, n1)
        | (Inr c1, n1) \<Rightarrow>
            (case conv2d_block env in_channels in_channels 3 1 1 None norm_type n1 of
               (Inl e, n2) \<Rightarrow> (Inl e, n2)
             | (Inr c2, n2) \<Rightarrow>
                 (Inr \<lparr>act = activation, res_type = rtype, conv1 = c1, conv2 = c2\<rparr>, n2)))"

definition ResBlock_forward :: "('t, 'w) framework \<Rightarrow> 't ResBlock \<Rightarrow> 't module" where
  "ResBlock_forward env self x =
     (let residual = x in
      and_then (conv1 self x) (\<lambda>x.
      and_then (conv2 self x) (\<lambda>x.
      and_then (tensor_add env x residual) (act self))))"

subsection \<open>ResFCBlock\<close>

text \<open>
  The three classes each have a field \<^verbatim>\<open>act\<close>, and the two fully-connected ones share
  \<^verbatim>\<open>fc1\<close> and \<^verbatim>\<open>fc2\<close>; the fields of the later records carry the class as a prefix.
\<close>

record 't ResFCBlock =
  fcb_act :: "'t module"
  fcb_fc1 :: "'t module"
  fcb_fc2 :: "'t module"

definition ResFCBlock_init ::
  "('t, 'w) framework \<Rightarrow> nat \<Rightarrow> 't module \<Rightarrow> string option \<Rightarrow> nat
     \<Rightarrow> (error + 't ResFCBlock) \<times> nat" where
  "ResFCBlock_init env in_channels activation norm_type n =
     (case fc_block env in_channels in_channels (Some activation) norm_type n of
        (Inl e, n1) \<Rightarrow> (Inl e, n1)
      | (Inr f1, n1) \<Rightarrow>
          (case fc_block env in_channels in_channels None norm_type n1 of
             (Inl e, n2) \<Rightarrow> (Inl e, n2)
           | (Inr f2, n2) \<Rightarrow>
               (Inr \<lparr>fcb_act = activation, fcb_fc1 = f1, fcb_fc2 = f2\<rparr>, n2)))"

definition ResFCBlock_forward :: "('t, 'w) framework \<Rightarrow> 't ResFCBlock \<Rightarrow> 't module" where
  "ResFCBlock_forward env self x =
     (let residual = x in
      and_then (fcb_fc1 self x) (\<lambda>x.
      and_then (fcb_fc2 self x) (\<lambda>x.
      and_then (tensor_add env x residual) (fcb_act self))))"

subsection \<open>ResFCBlock2\<close>

record 't ResFCBlock2 =
  fcb2_act :: "'t module"
  fcb2_fc1 :: "'t module"
  fcb2_fc2 :: "'t module"
  fcb2_norm :: "'t module"

definition ResFCBlock2_init ::
  "('t, 'w) framework \<Rightarrow> nat \<Rightarrow> 't module \<Rightarrow> string option \<Rightarrow> nat
     \<Rightarrow> (error + 't ResFCBlock2) \<times> nat" where
  "ResFCBlock2_init env in_channels activation norm_type n =
     (case fc_block env in_channels in_channels (Some activation) None n of
        (Inl e, n1) \<Rightarrow> (Inl e, n1)
      | (Inr f1, n1) \<Rightarrow>
          (case fc_block env in_channels in_channels None None n1 of
             (Inl e, n2) \<Rightarrow> (Inl e, n2)
           | (Inr f2, n2) \<Rightarrow>
               (case build_normalization env norm_type of
                  Inl e \<Rightarrow> (Inl e, n2)
                | Inr mk \<Rightarrow>
                    (Inr \<lparr>fcb2_act = activation, fcb2_fc1 = f1, fcb2_fc2 = f2,
                          fcb2_norm = mk in_channels\<rparr>, n2))))"

definition ResFCBlock2_forward :: "('t, 'w) framework \<Rightarrow> 't ResFCBlock2 \<Rightarrow> 't module" where
  "ResFCBlock2_forward env self x =
     (let residual = x in
      and_then (fcb2_fc1 self x) (\<lambda>x.
      and_then (fcb2_fc2 self x) (\<lambda>x.
      and_then (tensor_add env x residual) (fcb2_norm self))))"

subsection \<open>Shape rules of the framework\<close>

text \<open>
  The shape claims rest on what the framework's primitives do to shapes. A 2D convolution
  with kernel \<open>k\<close>, stride \<open>s\<close> and padding \<open>p\<close> maps \<open>[b, cin, h, w]\<close> to
  \<open>[b, cout, (h + 2 p - k) div s + 1, (w + 2 p - k) div s + 1]\<close>; a linear layer maps
  \<open>[b, cin]\<close> to \<open>[b, cout]\<close>; a normalization built for \<open>c\<close> channels keeps the shape
  of a tensor whose second dimension is \<open>c\<close>; adding two tensors of one shape gives that
  shape.
\<close>

definition conv_shape_rule :: "('t, 'w) framework \<Rightarrow> bool" where
  "conv_shape_rule env \<longleftrightarrow>
     (\<forall>cin cout k s p w x b h wd.
        shape env x = [b, cin, h, wd] \<and> 0 < cin \<and> 0 < cout \<and> 0 < k \<and> 0 < s
          \<and> k \<le> h + 2 * p \<and> k \<le> wd + 2 * p
        \<longrightarrow> (\<exists>y. Conv2d env cin cout k s p w x = Inr y
               \<and> shape env y = [b, cout, (h + 2 * p - k) div s + 1, (wd + 2 * p - k) div s + 1]))"

definition linear_shape_rule :: "('t, 'w) framework \<Rightarrow> bool" where
  "linear_shape_rule env \<longleftrightarrow>
     (\<forall>cin cout w x b.
        shape env x = [b, cin] \<and> 0 < cin \<and> 0 < cout
        \<longrightarrow> (\<exists>y. Linear env cin cout w x = Inr y \<and> shape env y = [b, cout]))"

definition norm_shape_rule :: "('t, 'w) framework \<Rightarrow> bool" where
  "norm_shape_rule env \<longleftrightarrow>
     (\<forall>nt mk c x.
        build_normalization env nt = Inr mk \<and> 2 \<le> length (shape env x) \<and> shape env x ! 1 = c
        \<longrightarrow> (\<exists>y. mk c x = Inr y \<and> shape env y = shape env x))"

definition add_shape_rule :: "('t, 'w) framework \<Rightarrow> bool" where
  "add_shape_rule env \<longleftrightarrow>
     (\<forall>x y. shape env x = shape env y
        \<longrightarrow> (\<exists>z. tensor_add env x y = Inr z \<and> shape env z = shape env x))"

definition shape_preserving :: "('t, 'w) framework \<Rightarrow> 't module \<Rightarrow> bool" where
  "shape_preserving env m \<longleftrightarrow> (\<forall>x. \<exists>y. m x = Inr y \<and> shape env y = shape env x)"

subsection \<open>Two small frameworks\<close>

text \<open>
  \<open>shape_env\<close> computes with shapes only: a tensor is its shape. The normalization kinds
  it knows are those the docstrings of the module name.
\<close>

definition shape_conv2d :: "nat \<Rightarrow> nat \<Rightarrow> nat \<Rightarrow> nat \<Rightarrow> nat \<Rightarrow> nat \<Rightarrow> nat list module" where
  "shape_conv2d cin cout k s p w x =
     (case x of
        [b, c, h, wd] \<Rightarrow>
          if c = cin \<and> 0 < s \<and> k \<le> h + 2 * p \<and> k \<le> wd + 2 * p
          then Inr [b, cout, (h + 2 * p - k) div s + 1, (wd + 2 * p - k) div s + 1]
          else Inl (PrimitiveError ''conv2d: shape mismatch'')
      | _ \<Rightarrow> Inl (PrimitiveError ''conv2d: shape mismatch''))"

definition shape_linear :: "nat \<Rightarrow> nat \<Rightarrow> nat \<Rightarrow> nat list module" where
  "shape_linear cin cout w x =
     (case x of
        [b, c] \<Rightarrow> if c = cin then Inr [b, cout] else Inl (PrimitiveError ''linear: shape mismatch'')
      | _ \<Rightarrow> Inl (PrimitiveError ''linear: shape mismatch''))"

definition known_normalization :: "string option \<Rightarrow> bool" where
  "known_normalization nt \<longleftrightarrow> nt \<in> set [Some ''BN'', Some ''IN'', Some ''SyncBN'', Some ''LN'']"

definition shape_env :: "(nat list, nat) framework" where
  "shape_env =
     \<lparr>fresh_param = (\<lambda>n. n),
      Conv2d = shape_conv2d,
      Linear = shape_linear,
      build_normalization =
        (\<lambda>nt. if known_normalization nt then Inr (\<lambda>c x. Inr x)
              else Inl (PrimitiveError ''unsupported normalization'')),
      tensor_add = (\<lambda>x y. if x = y then Inr x else Inl (PrimitiveError ''add: shape mismatch'')),
      shape = (\<lambda>x. x)\<rparr>"

text \<open>
  \<open>scalar_env\<close> computes with integers in place of tensors: a layer multiplies by its
  parameter, the \<open>n\<close>-th layer created gets the parameter \<open>n + 2\<close>, a normalization
  built for \<open>c\<close> channels subtracts \<open>c\<close>, and addition is that of the integers.
\<close>

definition scalar_env :: "(int, int) framework" where
  "scalar_env =
     \<lparr>fresh_param = (\<lambda>n. int n + 2),
      Conv2d = (\<lambda>cin cout k s p w x. Inr (w * x)),
      Linear = (\<lambda>cin cout w x. Inr (w * x)),
      build_normalization =
        (\<lambda>nt. if known_normalization nt then Inr (\<lambda>c x. Inr (x - int c))
              else Inl (PrimitiveError ''unsupported normalization'')),
      tensor_add = (\<lambda>x y. Inr (x + y)),
      shape = (\<lambda>x. [])\<rparr>"

definition relu :: "int module" where
  "relu x = Inr (max 0 x)"

section \<open>Properties\<close>

subsection \<open>Auxiliary facts\<close>

lemma and_then_Inl: "and_then (Inl e) f = Inl e"
  by (simp add: and_then_def)

lemma and_then_Inr: "and_then (Inr v) f = f v"
  by (simp add: and_then_def)

lemma and_then_assoc: "and_then (and_then r f) g = and_then r (\<lambda>v. and_then (f v) g)"
  by (cases r) (simp_all add: and_then_def)

text \<open>What each constructor returns, in terms of the normalization layers alone.\<close>

lemma ResBlock_init_invalid:
  assumes "rtype \<notin> set [''basic'', ''bottleneck'']"
  shows "ResBlock_init env C a nt rtype n =
           (Inl (AssertionError (''residual type only support basic and bottleneck, not:'' @ rtype)), n)"
  using assms unfolding ResBlock_init_def by (simp only: not_False_eq_True if_True)

lemma ResBlock_init_valid:
  assumes "rtype \<in> set [''basic'', ''bottleneck'']"
  shows "ResBlock_init env C a nt rtype n =
           (case norm_layers env C nt of
              Inl e \<Rightarrow> (Inl e, Suc n)
            | Inr ns \<Rightarrow>
                (Inr \<lparr>act = a, res_type = rtype,
                      conv1 = sequential (Conv2d env C C 3 1 1 (fresh_param env n) # ns @ [a]),
                      conv2 = sequential (Conv2d env C C 3 1 1 (fresh_param env (Suc n)) # ns)\<rparr>,
                 Suc (Suc n)))"
proof -
  have "ResBlock_init env C a nt rtype n =
          (case conv2d_block env C C 3 1 1 (Some a) nt n of
             (Inl e, n1) \<Rightarrow> (Inl e, n1)
           | (Inr c1, n1) \<Rightarrow>
               (case conv2d_block env C C 3 1 1 None nt n1 of
                  (Inl e, n2) \<Rightarrow> (Inl e, n2)
                | (Inr c2, n2) \<Rightarrow>
                    (Inr \<lparr>act = a, res_type = rtype, conv1 = c1, conv2 = c2\<rparr>, n2)))"
    using assms unfolding ResBlock_init_def by (simp only: not_True_eq_False if_False simp_thms)
  then show ?thesis
    by (cases "norm_layers env C nt") (simp_all add: conv2d_block_def act_layers_def)
qed

lemma ResFCBlock_init_eq:
  "ResFCBlock_init env C a nt n =
     (case norm_layers env C nt of
        Inl e \<Rightarrow> (Inl e, Suc n)
      | Inr ns \<Rightarrow>
          (Inr \<lparr>fcb_act = a,
                fcb_fc1 = sequential (Linear env C C (fresh_param env n) # ns @ [a]),
                fcb_fc2 = sequential (Linear env C C (fresh_param env (Suc n)) # ns)\<rparr>,
           Suc (Suc n)))"
  by (cases "norm_layers env C nt")
     (simp_all add: ResFCBlock_init_def fc_block_def act_layers_def)

lemma ResFCBlock2_init_eq:
  "ResFCBlock2_init env C a nt n =
     (case build_normalization env nt of
        Inl e \<Rightarrow> (Inl e, Suc (Suc n))
      | Inr mk \<Rightarrow>
          (Inr \<lparr>fcb2_act = a,
                fcb2_fc1 = sequential [Linear env C C (fresh_param env n), a],
                fcb2_fc2 = sequential [Linear env C C (fresh_param env (Suc n))],
                fcb2_norm = mk C\<rparr>,
           Suc (Suc n)))"
  by (cases "build_normalization env nt")
     (simp_all add: ResFCBlock2_init_def fc_block_def act_layers_def norm_layers_def)

lemma known_normalization_BN: "known_normalization (Some ''BN'')"
  by (simp add: known_normalization_def)

lemma known_normalization_LN: "known_normalization (Some ''LN'')"
  by (simp add: known_normalization_def)

lemma norm_layers_scalar_BN: "norm_layers scalar_env C (Some ''BN'') = Inr [\<lambda>x. Inr (x - int C)]"
  by (simp add: norm_layers_def scalar_env_def known_normalization_BN)

lemma norm_layers_shape_BN: "norm_layers shape_env C (Some ''BN'') = Inr [\<lambda>x. Inr x]"
  by (simp add: norm_layers_def shape_env_def known_normalization_BN)

lemma and_then_return: "and_then r Inr = r"
  by (cases r) (simp_all add: and_then_def)

lemma sequential_Nil: "sequential [] = Inr"
  by (intro ext) simp

lemma sequential_identities:
  assumes "\<forall>m\<in>set ms. m = Inr"
  shows "sequential ms x = Inr x"
  using assms by (induction ms) (simp_all add: and_then_Inr)

lemma sequential_Cons_identities:
  assumes "\<forall>m\<in>set ms. m = Inr"
  shows "sequential (c # ms) x = c x"
proof -
  have "sequential ms = Inr"
    using sequential_identities [OF assms] by (intro ext)
  then show ?thesis by (simp add: and_then_return)
qed

lemma ResBlock_forward_unfold:
  "ResBlock_forward env blk x =
     and_then (and_then (and_then (conv1 blk x) (conv2 blk)) (\<lambda>y. tensor_add env y x)) (act blk)"
  by (simp add: ResBlock_forward_def and_then_assoc)

lemma ResFCBlock_forward_unfold:
  "ResFCBlock_forward env blk x =
     and_then (and_then (and_then (fcb_fc1 blk x) (fcb_fc2 blk)) (\<lambda>y. tensor_add env y x)) (fcb_act blk)"
  by (simp add: ResFCBlock_forward_def and_then_assoc)

lemma ResFCBlock2_forward_unfold:
  "ResFCBlock2_forward env blk x =
     and_then (and_then (and_then (fcb2_fc1 blk x) (fcb2_fc2 blk)) (\<lambda>y. tensor_add env y x)) (fcb2_norm blk)"
  by (simp add: ResFCBlock2_forward_def and_then_assoc)

text \<open>The block a successful constructor returns.\<close>

lemma ResBlock_init_InrD:
  assumes "fst (ResBlock_init env C a nt rtype n) = Inr blk"
  shows "\<exists>ns. norm_layers env C nt = Inr ns
           \<and> rtype \<in> set [''basic'', ''bottleneck'']
           \<and> blk = \<lparr>act = a, res_type = rtype,
                    conv1 = sequential (Conv2d env C C 3 1 1 (fresh_param env n) # ns @ [a]),
                    conv2 = sequential (Conv2d env C C 3 1 1 (fresh_param env (Suc n)) # ns)\<rparr>"
proof (cases "rtype \<in> set [''basic'', ''bottleneck'']")
  case True
  show ?thesis
  proof (cases "norm_layers env C nt")
    case (Inl e)
    with assms show ?thesis by (simp add: ResBlock_init_valid [OF True])
  next
    case (Inr ns)
    with assms True show ?thesis by (simp add: ResBlock_init_valid [OF True])
  qed
next
  case False
  with assms show ?thesis by (simp add: ResBlock_init_invalid [OF False])
qed

lemma ResFCBlock_init_InrD:
  assumes "fst (ResFCBlock_init env C a nt n) = Inr blk"
  shows "\<exists>ns. norm_layers env C nt = Inr ns
           \<and> blk = \<lparr>fcb_act = a,
                    fcb_fc1 = sequential (Linear env C C (fresh_param env n) # ns @ [a]),
                    fcb_fc2 = sequential (Linear env C C (fresh_param env (Suc n)) # ns)\<rparr>"
proof (cases "norm_layers env C nt")
  case (Inl e)
  with assms show ?thesis by (simp add: ResFCBlock_init_eq)
next
  case (Inr ns)
  with assms show ?thesis by (simp add: ResFCBlock_init_eq)
qed

lemma ResFCBlock2_init_InrD:
  assumes "fst (ResFCBlock2_init env C a nt n) = Inr blk"
  shows "\<exists>mk. build_normalization env nt = Inr mk
           \<and> blk = \<lparr>fcb2_act = a,
                    fcb2_fc1 = sequential [Linear env C C (fresh_param env n), a],
                    fcb2_fc2 = sequential [Linear env C C (fresh_param env (Suc n))],
                    fcb2_norm = mk C\<rparr>"
proof (cases "build_normalization env nt")
  case (Inl e)
  with assms show ?thesis by (simp add: ResFCBlock2_init_eq)
next
  case (Inr mk)
  with assms show ?thesis by (simp add: ResFCBlock2_init_eq)
qed

text \<open>Modules that keep a shape, in sequence, keep it.\<close>

lemma sequential_keeps_shape:
  assumes "\<forall>m\<in>set ms. \<forall>x. shape env x = s \<longrightarrow> (\<exists>y. m x = Inr y \<and> shape env y = s)"
    and "shape env x = s"
  shows "\<exists>y. sequential ms x = Inr y \<and> shape env y = s"
  using assms
proof (induction ms arbitrary: x)
  case Nil
  then show ?case by simp
next
  case (Cons m ms)
  from Cons.prems obtain y where y: "m x = Inr y" "shape env y = s"
    by auto
  from Cons.IH [of y] Cons.prems(1) y(2)
  obtain z where "sequential ms y = Inr z" "shape env z = s"
    by auto
  with y show ?case by (simp add: and_then_Inr)
qed

lemma norm_layers_keep_shape:
  assumes rule: "norm_shape_rule env"
    and ns: "norm_layers env C nt = Inr ns"
    and s: "2 \<le> length s" "s ! 1 = C"
  shows "\<forall>m\<in>set ns. \<forall>x. shape env x = s \<longrightarrow> (\<exists>y. m x = Inr y \<and> shape env y = s)"
proof (cases nt)
  case None
  with ns show ?thesis by (simp add: norm_layers_def)
next
  case (Some k)
  show ?thesis
  proof (cases "build_normalization env (Some k)")
    case (Inl e)
    with ns Some show ?thesis by (simp add: norm_layers_def)
  next
    case (Inr mk)
    with ns Some have eq: "ns = [mk C]" by (simp add: norm_layers_def)
    have "\<exists>y. mk C x = Inr y \<and> shape env y = s" if "shape env x = s" for x
      using rule Inr s that unfolding norm_shape_rule_def by metis
    then show ?thesis by (simp add: eq)
  qed
qed

lemma conv_shape_ruleD:
  assumes "conv_shape_rule env" and "shape env x = [b, cin, h, wd]"
    and "0 < cin" "0 < cout" "0 < k" "0 < s" "k \<le> h + 2 * p" "k \<le> wd + 2 * p"
  shows "\<exists>y. Conv2d env cin cout k s p w x = Inr y
           \<and> shape env y = [b, cout, (h + 2 * p - k) div s + 1, (wd + 2 * p - k) div s + 1]"
  using assms unfolding conv_shape_rule_def by blast

lemma linear_shape_ruleD:
  assumes "linear_shape_rule env" and "shape env x = [b, cin]" and "0 < cin" "0 < cout"
  shows "\<exists>y. Linear env cin cout w x = Inr y \<and> shape env y = [b, cout]"
  using assms unfolding linear_shape_rule_def by blast

lemma shape_env_conv_rule: "conv_shape_rule shape_env"
  by (simp add: conv_shape_rule_def shape_env_def shape_conv2d_def)

lemma shape_env_linear_rule: "linear_shape_rule shape_env"
  by (simp add: linear_shape_rule_def shape_env_def shape_linear_def)

lemma shape_env_norm_rule: "norm_shape_rule shape_env"
  by (auto simp add: norm_shape_rule_def shape_env_def split: if_splits)

lemma shape_env_add_rule: "add_shape_rule shape_env"
  by (simp add: add_shape_rule_def shape_env_def)

lemma shape_env_identity: "shape_preserving shape_env Inr"
  by (simp add: shape_preserving_def)

subsection \<open>Validation of the residual type\<close>

text \<open>
  Claim C2, as amended. For a residual type other than \<^verbatim>\<open>basic\<close> and \<^verbatim>\<open>bottleneck\<close>,
  constructing a \<^verbatim>\<open>ResBlock\<close> raises the assertion error, whose message ends with the
  offending value; no block exists, so no forward computation takes place. For one of
  the two types the assertion passes, and the constructor succeeds whenever the
  normalization layers of the two convolution blocks can be built; an error it raises
  then is the one the normalization selector returned, not the assertion's. The
  constructors of \<^verbatim>\<open>ResFCBlock\<close> and \<^verbatim>\<open>ResFCBlock2\<close> check nothing themselves: they
  succeed whenever the normalization can be built, and an error they raise is the
  selector's.
\<close>

theorem construction_validation:
  "(rtype \<notin> set [''basic'', ''bottleneck''] \<longrightarrow>
      fst (ResBlock_init env C a nt rtype n) =
        Inl (AssertionError (''residual type only support basic and bottleneck, not:'' @ rtype)))
   \<and> (rtype \<in> set [''basic'', ''bottleneck''] \<longrightarrow>
        (\<forall>ns. norm_layers env C nt = Inr ns \<longrightarrow> (\<exists>blk. fst (ResBlock_init env C a nt rtype n) = Inr blk))
        \<and> (\<forall>e. fst (ResBlock_init env C a nt rtype n) = Inl e \<longrightarrow> norm_layers env C nt = Inl e))
   \<and> (\<forall>ns. norm_layers env C nt = Inr ns \<longrightarrow> (\<exists>blk. fst (ResFCBlock_init env C a nt n) = Inr blk))
   \<and> (\<forall>e. fst (ResFCBlock_init env C a nt n) = Inl e \<longrightarrow> norm_layers env C nt = Inl e)
   \<and> (\<forall>mk. build_normalization env nt = Inr mk \<longrightarrow> (\<exists>blk. fst (ResFCBlock2_init env C a nt n) = Inr blk))
   \<and> (\<forall>e. fst (ResFCBlock2_init env C a nt n) = Inl e \<longrightarrow> build_normalization env nt = Inl e)"
proof (intro conjI impI allI)
  assume bad: "rtype \<notin> set [''basic'', ''bottleneck'']"
  show "fst (ResBlock_init env C a nt rtype n) =
        Inl (AssertionError (''residual type only support basic and bottleneck, not:'' @ rtype))"
    by (simp add: ResBlock_init_invalid [OF bad])
next
  fix ns
  assume good: "rtype \<in> set [''basic'', ''bottleneck'']" and ok: "norm_layers env C nt = Inr ns"
  show "\<exists>blk. fst (ResBlock_init env C a nt rtype n) = Inr blk"
    by (simp add: ResBlock_init_valid [OF good] ok)
next
  fix e
  assume good: "rtype \<in> set [''basic'', ''bottleneck'']"
    and err: "fst (ResBlock_init env C a nt rtype n) = Inl e"
  show "norm_layers env C nt = Inl e"
  proof (cases "norm_layers env C nt")
    case (Inl e')
    with err show ?thesis by (simp add: ResBlock_init_valid [OF good])
  next
    case (Inr ns)
    with err show ?thesis by (simp add: ResBlock_init_valid [OF good])
  qed
next
  fix ns
  assume "norm_layers env C nt = Inr ns"
  then show "\<exists>blk. fst (ResFCBlock_init env C a nt n) = Inr blk"
    by (simp add: ResFCBlock_init_eq)
next
  fix e
  assume err: "fst (ResFCBlock_init env C a nt n) = Inl e"
  show "norm_layers env C nt = Inl e"
  proof (cases "norm_layers env C nt")
    case (Inl e')
    with err show ?thesis by (simp add: ResFCBlock_init_eq)
  next
    case (Inr ns)
    with err show ?thesis by (simp add: ResFCBlock_init_eq)
  qed
next
  fix mk
  assume "build_normalization env nt = Inr mk"
  then show "\<exists>blk. fst (ResFCBlock2_init env C a nt n) = Inr blk"
    by (simp add: ResFCBlock2_init_eq)
next
  fix e
  assume err: "fst (ResFCBlock2_init env C a nt n) = Inl e"
  show "build_normalization env nt = Inl e"
  proof (cases "build_normalization env nt")
    case (Inl e')
    with err show ?thesis by (simp add: ResFCBlock2_init_eq)
  next
    case (Inr mk)
    with err show ?thesis by (simp add: ResFCBlock2_init_eq)
  qed
qed

theorem construction_validation_witness:
  "fst (ResBlock_init scalar_env 4 relu (Some ''BN'') ''invalid'' 0) =
     Inl (AssertionError ''residual type only support basic and bottleneck, not:invalid'')
   \<and> (\<exists>blk. fst (ResBlock_init scalar_env 4 relu (Some ''BN'') ''basic'' 0) = Inr blk)
   \<and> (\<exists>blk. fst (ResFCBlock_init scalar_env 4 relu (Some ''BN'') 0) = Inr blk)
   \<and> (\<exists>blk. fst (ResFCBlock2_init scalar_env 4 relu (Some ''LN'') 0) = Inr blk)
   \<and> norm_layers scalar_env 4 (Some ''XN'') = Inl (PrimitiveError ''unsupported normalization'')
   \<and> norm_layers scalar_env 4 (Some ''YN'') = Inl (PrimitiveError ''unsupported normalization'')
   \<and> build_normalization scalar_env (Some ''ZN'') = Inl (PrimitiveError ''unsupported normalization'')"
proof -
  have bad: "''invalid'' \<notin> set [''basic'', ''bottleneck'']" by simp
  have good: "''basic'' \<in> set [''basic'', ''bottleneck'']" by simp
  have ln: "build_normalization scalar_env (Some ''LN'') = Inr (\<lambda>c x. Inr (x - int c))"
    by (simp add: scalar_env_def known_normalization_LN)
  have xn: "fst (ResBlock_init scalar_env 4 relu (Some ''XN'') ''basic'' 0)
              = Inl (PrimitiveError ''unsupported normalization'')"
    by (simp add: ResBlock_init_valid norm_layers_def scalar_env_def known_normalization_def)
  have yn: "fst (ResFCBlock_init scalar_env 4 relu (Some ''YN'') 0)
              = Inl (PrimitiveError ''unsupported normalization'')"
    by (simp add: ResFCBlock_init_eq norm_layers_def scalar_env_def known_normalization_def)
  have zn: "fst (ResFCBlock2_init scalar_env 4 relu (Some ''ZN'') 0)
              = Inl (PrimitiveError ''unsupported normalization'')"
    by (simp add: ResFCBlock2_init_eq scalar_env_def known_normalization_def)
  note inv = construction_validation
    [of "''invalid''" scalar_env 4 relu "Some ''BN''" 0]
  note bas = construction_validation
    [of "''basic''" scalar_env 4 relu "Some ''BN''" 0]
  note lnn = construction_validation
    [of "''basic''" scalar_env 4 relu "Some ''LN''" 0]
  note xnn = construction_validation
    [of "''basic''" scalar_env 4 relu "Some ''XN''" 0]
  note ynn = construction_validation
    [of "''basic''" scalar_env 4 relu "Some ''YN''" 0]
  note znn = construction_validation
    [of "''basic''" scalar_env 4 relu "Some ''ZN''" 0]
  have 1: "fst (ResBlock_init scalar_env 4 relu (Some ''BN'') ''invalid'' 0) =
     Inl (AssertionError ''residual type only support basic and bottleneck, not:invalid'')"
    using inv bad by simp
  have 2: "\<exists>blk. fst (ResBlock_init scalar_env 4 relu (Some ''BN'') ''basic'' 0) = Inr blk"
    using bas good norm_layers_scalar_BN [of 4] by blast
  have 3: "\<exists>blk. fst (ResFCBlock_init scalar_env 4 relu (Some ''BN'') 0) = Inr blk"
    using bas norm_layers_scalar_BN [of 4] by blast
  have 4: "\<exists>blk. fst (ResFCBlock2_init scalar_env 4 relu (Some ''LN'') 0) = Inr blk"
    using lnn ln by blast
  have 5: "norm_layers scalar_env 4 (Some ''XN'') = Inl (PrimitiveError ''unsupported normalization'')"
    using xnn good xn by blast
  have 6: "norm_layers scalar_env 4 (Some ''YN'') = Inl (PrimitiveError ''unsupported normalization'')"
    using ynn yn by blast
  have 7: "build_normalization scalar_env (Some ''ZN'') = Inl (PrimitiveError ''unsupported normalization'')"
    using znn zn by blast
  from 1 2 3 4 5 6 7 show ?thesis by blast
qed

text \<open>
  Counterexample to Claim C2 in its unamended form, in which the constructor succeeds for
  every valid residual type. Unsupported normalization kinds are left to the external
  primitives: with the valid type \<^verbatim>\<open>basic\<close> and a normalization kind the selector
  does not know, the assertion passes and the construction fails with the selector's
  error.
\<close>

theorem construction_valid_tag_counterexample:
  "''basic'' \<in> set [''basic'', ''bottleneck'']
   \<and> fst (ResBlock_init scalar_env 4 relu (Some ''XN'') ''basic'' 0) =
       Inl (PrimitiveError ''unsupported normalization'')"
proof -
  have good: "''basic'' \<in> set [''basic'', ''bottleneck'']" by simp
  have unknown: "norm_layers scalar_env 4 (Some ''XN'') = Inl (PrimitiveError ''unsupported normalization'')"
    by (simp add: norm_layers_def scalar_env_def known_normalization_def)
  have "fst (ResBlock_init scalar_env 4 relu (Some ''XN'') ''basic'' 0) =
       Inl (PrimitiveError ''unsupported normalization'')"
    by (simp add: ResBlock_init_valid [OF good] unknown)
  with good show ?thesis by blast
qed

subsection \<open>The assertion comes before the sub-blocks\<close>

text \<open>
  Claim C10. When the residual type is neither \<^verbatim>\<open>basic\<close> nor \<^verbatim>\<open>bottleneck\<close>, the
  constructor of \<^verbatim>\<open>ResBlock\<close> raises the assertion error with the number of layers
  created unchanged, whatever the framework, the channel count, the activation and the
  normalization kind are: neither convolution block has been built and no parameters
  have been drawn. A constructor that returns a block has created exactly two layers.
\<close>

theorem ResBlock_init_atomic:
  "(rtype \<notin> set [''basic'', ''bottleneck''] \<longrightarrow>
      snd (ResBlock_init env C a nt rtype n) = n
      \<and> (\<exists>msg. fst (ResBlock_init env C a nt rtype n) = Inl (AssertionError msg))
      \<and> (\<forall>env'. ResBlock_init env' C a nt rtype n = ResBlock_init env C a nt rtype n))
   \<and> (\<forall>blk. fst (ResBlock_init env C a nt rtype n) = Inr blk \<longrightarrow>
         snd (ResBlock_init env C a nt rtype n) = n + 2)"
proof (intro conjI impI allI)
  assume bad: "rtype \<notin> set [''basic'', ''bottleneck'']"
  show "snd (ResBlock_init env C a nt rtype n) = n"
    by (simp add: ResBlock_init_invalid [OF bad])
next
  assume bad: "rtype \<notin> set [''basic'', ''bottleneck'']"
  show "\<exists>msg. fst (ResBlock_init env C a nt rtype n) = Inl (AssertionError msg)"
    by (simp add: ResBlock_init_invalid [OF bad])
next
  fix env'
  assume bad: "rtype \<notin> set [''basic'', ''bottleneck'']"
  show "ResBlock_init env' C a nt rtype n = ResBlock_init env C a nt rtype n"
    by (simp only: ResBlock_init_invalid [OF bad])
next
  fix blk
  assume ok: "fst (ResBlock_init env C a nt rtype n) = Inr blk"
  show "snd (ResBlock_init env C a nt rtype n) = n + 2"
  proof (cases "rtype \<in> set [''basic'', ''bottleneck'']")
    case True
    show ?thesis
    proof (cases "norm_layers env C nt")
      case (Inl e)
      with ok show ?thesis by (simp add: ResBlock_init_valid [OF True])
    next
      case (Inr ns)
      then show ?thesis by (simp add: ResBlock_init_valid [OF True])
    qed
  next
    case False
    with ok show ?thesis by (simp add: ResBlock_init_invalid [OF False])
  qed
qed

theorem ResBlock_init_atomic_witness:
  "ResBlock_init scalar_env 4 relu (Some ''XN'') ''invalid'' 7 =
     (Inl (AssertionError ''residual type only support basic and bottleneck, not:invalid''), 7)
   \<and> snd (ResBlock_init scalar_env 4 relu (Some ''BN'') ''bottleneck'' 7) = 9"
proof -
  have bad: "''invalid'' \<notin> set [''basic'', ''bottleneck'']" by simp
  have good: "''bottleneck'' \<in> set [''basic'', ''bottleneck'']" by simp
  have built: "\<exists>blk. fst (ResBlock_init scalar_env 4 relu (Some ''BN'') ''bottleneck'' 7) = Inr blk"
    by (simp add: ResBlock_init_valid [OF good] norm_layers_scalar_BN)
  have "snd (ResBlock_init scalar_env 4 relu (Some ''XN'') ''invalid'' 7) = 7"
    using ResBlock_init_atomic [of "''invalid''" scalar_env 4 relu "Some ''XN''" 7] bad by blast
  moreover have "fst (ResBlock_init scalar_env 4 relu (Some ''XN'') ''invalid'' 7) =
      Inl (AssertionError ''residual type only support basic and bottleneck, not:invalid'')"
    by (simp add: ResBlock_init_invalid [OF bad])
  moreover have "snd (ResBlock_init scalar_env 4 relu (Some ''BN'') ''bottleneck'' 7) = 7 + 2"
    using ResBlock_init_atomic [of "''bottleneck''" scalar_env 4 relu "Some ''BN''" 7] built by blast
  ultimately show ?thesis by (simp add: prod_eq_iff)
qed

subsection \<open>What the forward passes compute\<close>

text \<open>
  Claim C1. The forward pass of a \<^verbatim>\<open>ResBlock\<close> is \<open>act (conv2 (conv1 x) + x)\<close>: the first
  convolution block is the convolution, the normalization (when a kind is given) and the
  activation; the second is the convolution and the normalization, without activation;
  the input is added to its result and the activation is applied to the sum. When the
  normalization layers and the activation are the identity, the result is the second
  convolution of the first convolution of \<open>x\<close>, plus \<open>x\<close>.
\<close>

theorem ResBlock_forward_computes:
  assumes "fst (ResBlock_init env C a nt rtype n) = Inr blk"
  shows "\<exists>ns. norm_layers env C nt = Inr ns
     \<and> conv1 blk = sequential (Conv2d env C C 3 1 1 (fresh_param env n) # ns @ [a])
     \<and> conv2 blk = sequential (Conv2d env C C 3 1 1 (fresh_param env (Suc n)) # ns)
     \<and> act blk = a
     \<and> ResBlock_forward env blk x =
         and_then (and_then (and_then (conv1 blk x) (conv2 blk)) (\<lambda>y. tensor_add env y x)) a
     \<and> ((\<forall>m\<in>set ns. m = Inr) \<and> a = Inr \<longrightarrow>
          ResBlock_forward env blk x =
            and_then (and_then (Conv2d env C C 3 1 1 (fresh_param env n) x)
                               (Conv2d env C C 3 1 1 (fresh_param env (Suc n))))
                     (\<lambda>y. tensor_add env y x))"
proof -
  from ResBlock_init_InrD [OF assms] obtain ns where
    ns: "norm_layers env C nt = Inr ns" and
    blk: "blk = \<lparr>act = a, res_type = rtype,
                 conv1 = sequential (Conv2d env C C 3 1 1 (fresh_param env n) # ns @ [a]),
                 conv2 = sequential (Conv2d env C C 3 1 1 (fresh_param env (Suc n)) # ns)\<rparr>"
    by blast
  have c1: "conv1 blk = sequential (Conv2d env C C 3 1 1 (fresh_param env n) # ns @ [a])"
    by (simp add: blk)
  have c2: "conv2 blk = sequential (Conv2d env C C 3 1 1 (fresh_param env (Suc n)) # ns)"
    by (simp add: blk)
  have a: "act blk = a" by (simp add: blk)
  have fwd: "ResBlock_forward env blk x =
         and_then (and_then (and_then (conv1 blk x) (conv2 blk)) (\<lambda>y. tensor_add env y x)) a"
    using ResBlock_forward_unfold [of env blk x] by (simp only: a)
  have idc: "ResBlock_forward env blk x =
            and_then (and_then (Conv2d env C C 3 1 1 (fresh_param env n) x)
                               (Conv2d env C C 3 1 1 (fresh_param env (Suc n))))
                     (\<lambda>y. tensor_add env y x)"
    if ids: "\<forall>m\<in>set ns. m = Inr" and aid: "a = Inr"
  proof -
    have ids': "\<forall>m\<in>set (ns @ [a]). m = Inr" using ids aid by simp
    have e1: "conv1 blk x = Conv2d env C C 3 1 1 (fresh_param env n) x"
      unfolding c1 by (rule sequential_Cons_identities [OF ids'])
    have e2: "conv2 blk = Conv2d env C C 3 1 1 (fresh_param env (Suc n))"
      unfolding c2 by (intro ext) (rule sequential_Cons_identities [OF ids])
    show ?thesis
      unfolding fwd e1 e2 aid by (rule and_then_return)
  qed
  from ns c1 c2 a fwd idc show ?thesis by blast
qed

theorem ResBlock_forward_computes_witness:
  "(\<exists>blk. fst (ResBlock_init scalar_env 4 relu (Some ''BN'') ''basic'' 0) = Inr blk
      \<and> ResBlock_forward scalar_env blk 5 = Inr 19
      \<and> ResBlock_forward scalar_env blk (- 5) = Inr 0)
   \<and> (\<exists>blk. fst (ResBlock_init scalar_env 4 Inr None ''basic'' 0) = Inr blk
      \<and> ResBlock_forward scalar_env blk 5 = Inr (3 * (2 * 5) + 5))"
proof -
  have good: "''basic'' \<in> set [''basic'', ''bottleneck'']" by simp
  obtain blk where blk: "fst (ResBlock_init scalar_env 4 relu (Some ''BN'') ''basic'' 0) = Inr blk"
    by (simp add: ResBlock_init_valid [OF good] norm_layers_scalar_BN)
  have v1: "ResBlock_forward scalar_env blk 5 = Inr 19"
    using ResBlock_forward_computes [OF blk, of 5]
    by (simp add: norm_layers_scalar_BN) (simp add: scalar_env_def relu_def and_then_def)
  have v2: "ResBlock_forward scalar_env blk (- 5) = Inr 0"
    using ResBlock_forward_computes [OF blk, of "- 5"]
    by (simp add: norm_layers_scalar_BN) (simp add: scalar_env_def relu_def and_then_def)
  obtain blk' where blk': "fst (ResBlock_init scalar_env 4 Inr None ''basic'' 0) = Inr blk'"
    by (simp add: ResBlock_init_valid [OF good] norm_layers_def)
  have none: "norm_layers scalar_env 4 None = Inr []"
    by (simp add: norm_layers_def)
  have v3: "ResBlock_forward scalar_env blk' 5 = Inr (3 * (2 * 5) + 5)"
    using ResBlock_forward_computes [OF blk', of 5]
    by (simp add: none) (simp add: scalar_env_def and_then_def)
  from blk v1 v2 blk' v3 show ?thesis by blast
qed

text \<open>
  Claim C4. The forward pass of a \<^verbatim>\<open>ResFCBlock\<close> is \<open>act (fc2 (fc1 x) + x)\<close>: the first
  block is the linear layer, the normalization (when a kind is given) and the activation;
  the second is the linear layer and the normalization, without activation; the input is
  added and the activation applied to the sum. With identity normalization and
  activation the result is the second linear layer of the first of \<open>x\<close>, plus \<open>x\<close>.
\<close>

theorem ResFCBlock_forward_computes:
  assumes "fst (ResFCBlock_init env C a nt n) = Inr blk"
  shows "\<exists>ns. norm_layers env C nt = Inr ns
     \<and> fcb_fc1 blk = sequential (Linear env C C (fresh_param env n) # ns @ [a])
     \<and> fcb_fc2 blk = sequential (Linear env C C (fresh_param env (Suc n)) # ns)
     \<and> fcb_act blk = a
     \<and> ResFCBlock_forward env blk x =
         and_then (and_then (and_then (fcb_fc1 blk x) (fcb_fc2 blk)) (\<lambda>y. tensor_add env y x)) a
     \<and> ((\<forall>m\<in>set ns. m = Inr) \<and> a = Inr \<longrightarrow>
          ResFCBlock_forward env blk x =
            and_then (and_then (Linear env C C (fresh_param env n) x)
                               (Linear env C C (fresh_param env (Suc n))))
                     (\<lambda>y. tensor_add env y x))"
proof -
  from ResFCBlock_init_InrD [OF assms] obtain ns where
    ns: "norm_layers env C nt = Inr ns" and
    blk: "blk = \<lparr>fcb_act = a,
                 fcb_fc1 = sequential (Linear env C C (fresh_param env n) # ns @ [a]),
                 fcb_fc2 = sequential (Linear env C C (fresh_param env (Suc n)) # ns)\<rparr>"
    by blast
  have f1: "fcb_fc1 blk = sequential (Linear env C C (fresh_param env n) # ns @ [a])"
    by (simp add: blk)
  have f2: "fcb_fc2 blk = sequential (Linear env C C (fresh_param env (Suc n)) # ns)"
    by (simp add: blk)
  have a: "fcb_act blk = a" by (simp add: blk)
  have fwd: "ResFCBlock_forward env blk x =
         and_then (and_then (and_then (fcb_fc1 blk x) (fcb_fc2 blk)) (\<lambda>y. tensor_add env y x)) a"
    using ResFCBlock_forward_unfold [of env blk x] by (simp only: a)
  have idc: "ResFCBlock_forward env blk x =
            and_then (and_then (Linear env C C (fresh_param env n) x)
                               (Linear env C C (fresh_param env (Suc n))))
                     (\<lambda>y. tensor_add env y x)"
    if ids: "\<forall>m\<in>set ns. m = Inr" and aid: "a = Inr"
  proof -
    have ids': "\<forall>m\<in>set (ns @ [a]). m = Inr" using ids aid by simp
    have e1: "fcb_fc1 blk x = Linear env C C (fresh_param env n) x"
      unfolding f1 by (rule sequential_Cons_identities [OF ids'])
    have e2: "fcb_fc2 blk = Linear env C C (fresh_param env (Suc n))"
      unfolding f2 by (intro ext) (rule sequential_Cons_identities [OF ids])
    show ?thesis
      unfolding fwd e1 e2 aid by (rule and_then_return)
  qed
  from ns f1 f2 a fwd idc show ?thesis by blast
qed

theorem ResFCBlock_forward_computes_witness:
  "(\<exists>blk. fst (ResFCBlock_init scalar_env 4 relu (Some ''BN'') 0) = Inr blk
      \<and> ResFCBlock_forward scalar_env blk 5 = Inr 19
      \<and> ResFCBlock_forward scalar_env blk (- 5) = Inr 0)
   \<and> (\<exists>blk. fst (ResFCBlock_init scalar_env 4 Inr None 0) = Inr blk
      \<and> ResFCBlock_forward scalar_env blk 5 = Inr (3 * (2 * 5) + 5))"
proof -
  obtain blk where blk: "fst (ResFCBlock_init scalar_env 4 relu (Some ''BN'') 0) = Inr blk"
    by (simp add: ResFCBlock_init_eq norm_layers_scalar_BN)
  have v1: "ResFCBlock_forward scalar_env blk 5 = Inr 19"
    using ResFCBlock_forward_computes [OF blk, of 5]
    by (simp add: norm_layers_scalar_BN) (simp add: scalar_env_def relu_def and_then_def)
  have v2: "ResFCBlock_forward scalar_env blk (- 5) = Inr 0"
    using ResFCBlock_forward_computes [OF blk, of "- 5"]
    by (simp add: norm_layers_scalar_BN) (simp add: scalar_env_def relu_def and_then_def)
  have none: "norm_layers scalar_env 4 None = Inr []"
    by (simp add: norm_layers_def)
  obtain blk' where blk': "fst (ResFCBlock_init scalar_env 4 Inr None 0) = Inr blk'"
    by (simp add: ResFCBlock_init_eq none)
  have v3: "ResFCBlock_forward scalar_env blk' 5 = Inr (3 * (2 * 5) + 5)"
    using ResFCBlock_forward_computes [OF blk', of 5]
    by (simp add: none) (simp add: scalar_env_def and_then_def)
  from blk v1 v2 blk' v3 show ?thesis by blast
qed

text \<open>
  Claim C3. The forward pass of a \<^verbatim>\<open>ResFCBlock2\<close> is \<open>norm (fc2 (fc1 x) + x)\<close>: whatever
  the normalization kind, the first block is the linear layer and the activation, the
  second is the linear layer alone, and neither holds a normalization; the one
  normalization, built by the selector for the channel count, is applied to the sum, and
  nothing is applied after it.
\<close>

theorem ResFCBlock2_forward_computes:
  assumes "fst (ResFCBlock2_init env C a nt n) = Inr blk"
  shows "\<exists>mk. build_normalization env nt = Inr mk
     \<and> fcb2_fc1 blk = sequential [Linear env C C (fresh_param env n), a]
     \<and> fcb2_fc2 blk = sequential [Linear env C C (fresh_param env (Suc n))]
     \<and> fcb2_norm blk = mk C
     \<and> ResFCBlock2_forward env blk x =
         and_then (and_then (and_then (and_then (Linear env C C (fresh_param env n) x) a)
                                      (Linear env C C (fresh_param env (Suc n))))
                            (\<lambda>y. tensor_add env y x))
                  (mk C)"
proof -
  from ResFCBlock2_init_InrD [OF assms] obtain mk where
    mk: "build_normalization env nt = Inr mk" and
    blk: "blk = \<lparr>fcb2_act = a,
                 fcb2_fc1 = sequential [Linear env C C (fresh_param env n), a],
                 fcb2_fc2 = sequential [Linear env C C (fresh_param env (Suc n))],
                 fcb2_norm = mk C\<rparr>"
    by blast
  have f1: "fcb2_fc1 blk = sequential [Linear env C C (fresh_param env n), a]"
    by (simp add: blk)
  have f2: "fcb2_fc2 blk = sequential [Linear env C C (fresh_param env (Suc n))]"
    by (simp add: blk)
  have nm: "fcb2_norm blk = mk C" by (simp add: blk)
  have s1: "sequential [Linear env C C (fresh_param env n), a] x =
              and_then (Linear env C C (fresh_param env n) x) a"
    by (cases "Linear env C C (fresh_param env n) x")
       (simp_all add: and_then_Inl and_then_Inr and_then_return sequential_Nil)
  have s2: "sequential [Linear env C C (fresh_param env (Suc n))] =
              Linear env C C (fresh_param env (Suc n))"
    by (intro ext) (rule sequential_Cons_identities, simp)
  have fwd: "ResFCBlock2_forward env blk x =
         and_then (and_then (and_then (and_then (Linear env C C (fresh_param env n) x) a)
                                      (Linear env C C (fresh_param env (Suc n))))
                            (\<lambda>y. tensor_add env y x))
                  (mk C)"
    unfolding ResFCBlock2_forward_unfold f1 f2 nm s1 s2 ..
  from mk f1 f2 nm fwd show ?thesis by blast
qed

theorem ResFCBlock2_forward_computes_witness:
  "\<exists>blk. fst (ResFCBlock2_init scalar_env 4 relu (Some ''LN'') 0) = Inr blk
      \<and> ResFCBlock2_forward scalar_env blk 5 = Inr 31
      \<and> ResFCBlock2_forward scalar_env blk (- 5) = Inr (- 9)"
proof -
  have ln: "build_normalization scalar_env (Some ''LN'') = Inr (\<lambda>c x. Inr (x - int c))"
    by (simp add: scalar_env_def known_normalization_LN)
  obtain blk where blk: "fst (ResFCBlock2_init scalar_env 4 relu (Some ''LN'') 0) = Inr blk"
    by (simp add: ResFCBlock2_init_eq ln)
  have v1: "ResFCBlock2_forward scalar_env blk 5 = Inr 31"
    using ResFCBlock2_forward_computes [OF blk, of 5]
    by (simp add: ln) (simp add: scalar_env_def relu_def and_then_def)
  have v2: "ResFCBlock2_forward scalar_env blk (- 5) = Inr (- 9)"
    using ResFCBlock2_forward_computes [OF blk, of "- 5"]
    by (simp add: ln) (simp add: scalar_env_def relu_def and_then_def)
  from blk v1 v2 show ?thesis by blast
qed

subsection \<open>The residual type after validation\<close>

text \<open>
  Claim C5. A \<^verbatim>\<open>ResBlock\<close> built with the type \<^verbatim>\<open>bottleneck\<close> is the one built with
  \<^verbatim>\<open>basic\<close> from the same arguments, but for the stored tag: the constructor creates as
  many layers and fails with the same error or returns the same two convolution blocks
  and the same activation, and the two forward passes agree on every input. The forward
  pass does not read the tag.
\<close>

theorem bottleneck_same_as_basic:
  "snd (ResBlock_init env C a nt ''bottleneck'' n) = snd (ResBlock_init env C a nt ''basic'' n)
   \<and> fst (ResBlock_init env C a nt ''bottleneck'' n) =
       map_sum id (\<lambda>b. b\<lparr>res_type := ''bottleneck''\<rparr>) (fst (ResBlock_init env C a nt ''basic'' n))
   \<and> (\<forall>b1 b2. fst (ResBlock_init env C a nt ''basic'' n) = Inr b1
          \<and> fst (ResBlock_init env C a nt ''bottleneck'' n) = Inr b2
        \<longrightarrow> conv1 b2 = conv1 b1 \<and> conv2 b2 = conv2 b1 \<and> act b2 = act b1
            \<and> (\<forall>x. ResBlock_forward env b2 x = ResBlock_forward env b1 x))
   \<and> (\<forall>b t x. ResBlock_forward env (b\<lparr>res_type := t\<rparr>) x = ResBlock_forward env b x)"
proof -
  have basic: "''basic'' \<in> set [''basic'', ''bottleneck'']" by simp
  have bottleneck: "''bottleneck'' \<in> set [''basic'', ''bottleneck'']" by simp
  have tag: "ResBlock_forward env (b\<lparr>res_type := t\<rparr>) x = ResBlock_forward env b x" for b t x
    by (simp add: ResBlock_forward_def)
  have counts: "snd (ResBlock_init env C a nt ''bottleneck'' n) = snd (ResBlock_init env C a nt ''basic'' n)"
    unfolding ResBlock_init_valid [OF basic] ResBlock_init_valid [OF bottleneck]
    by (cases "norm_layers env C nt") simp_all
  have results: "fst (ResBlock_init env C a nt ''bottleneck'' n) =
       map_sum id (\<lambda>b. b\<lparr>res_type := ''bottleneck''\<rparr>) (fst (ResBlock_init env C a nt ''basic'' n))"
    unfolding ResBlock_init_valid [OF basic] ResBlock_init_valid [OF bottleneck]
    by (cases "norm_layers env C nt") simp_all
  have same: "conv1 b2 = conv1 b1 \<and> conv2 b2 = conv2 b1 \<and> act b2 = act b1
            \<and> (\<forall>x. ResBlock_forward env b2 x = ResBlock_forward env b1 x)"
    if b1: "fst (ResBlock_init env C a nt ''basic'' n) = Inr b1"
    and b2: "fst (ResBlock_init env C a nt ''bottleneck'' n) = Inr b2" for b1 b2
  proof -
    from results b1 b2 have eq: "b2 = b1\<lparr>res_type := ''bottleneck''\<rparr>" by simp
    show ?thesis unfolding eq by (simp add: tag)
  qed
  from counts results same tag show ?thesis by blast
qed

theorem bottleneck_same_as_basic_witness:
  "\<exists>b1 b2. fst (ResBlock_init scalar_env 4 relu (Some ''BN'') ''basic'' 0) = Inr b1
      \<and> fst (ResBlock_init scalar_env 4 relu (Some ''BN'') ''bottleneck'' 0) = Inr b2
      \<and> res_type b1 = ''basic'' \<and> res_type b2 = ''bottleneck''
      \<and> conv1 b2 = conv1 b1 \<and> conv2 b2 = conv2 b1
      \<and> ResBlock_forward scalar_env b2 5 = ResBlock_forward scalar_env b1 5"
proof -
  have basic: "''basic'' \<in> set [''basic'', ''bottleneck'']" by simp
  have bottleneck: "''bottleneck'' \<in> set [''basic'', ''bottleneck'']" by simp
  obtain b1 where b1: "fst (ResBlock_init scalar_env 4 relu (Some ''BN'') ''basic'' 0) = Inr b1"
    and t1: "res_type b1 = ''basic''"
    by (simp add: ResBlock_init_valid [OF basic] norm_layers_scalar_BN)
  obtain b2 where b2: "fst (ResBlock_init scalar_env 4 relu (Some ''BN'') ''bottleneck'' 0) = Inr b2"
    and t2: "res_type b2 = ''bottleneck''"
    by (simp add: ResBlock_init_valid [OF bottleneck] norm_layers_scalar_BN)
  from bottleneck_same_as_basic [of scalar_env 4 relu "Some ''BN''" 0] b1 b2
  have "conv1 b2 = conv1 b1 \<and> conv2 b2 = conv2 b1
      \<and> ResBlock_forward scalar_env b2 5 = ResBlock_forward scalar_env b1 5"
    by blast
  with b1 b2 t1 t2 show ?thesis by blast
qed

subsection \<open>Shapes\<close>

text \<open>
  Claim C6. In a framework that follows the shape rules, a \<^verbatim>\<open>ResBlock\<close> built for \<open>C\<close>
  channels with a shape-preserving activation, applied to a tensor of shape
  \<open>[B, C, H, W]\<close> with positive \<open>C\<close>, \<open>H\<close> and \<open>W\<close>, returns a tensor of the shape
  \<open>[B, C, H, W]\<close>: both convolutions have kernel 3, stride 1 and padding 1 and as many
  output as input channels, so the sum with the input is well-shaped.
\<close>

theorem ResBlock_forward_shape:
  assumes rules: "conv_shape_rule env" "norm_shape_rule env" "add_shape_rule env"
    and act: "shape_preserving env a"
    and init: "fst (ResBlock_init env C a nt rtype n) = Inr blk"
    and x: "shape env x = [B, C, H, W]"
    and pos: "0 < C" "0 < H" "0 < W"
  shows "\<exists>y. ResBlock_forward env blk x = Inr y \<and> shape env y = [B, C, H, W]"
proof -
  from ResBlock_init_InrD [OF init] obtain ns where
    ns: "norm_layers env C nt = Inr ns" and
    blk: "blk = \<lparr>act = a, res_type = rtype,
                 conv1 = sequential (Conv2d env C C 3 1 1 (fresh_param env n) # ns @ [a]),
                 conv2 = sequential (Conv2d env C C 3 1 1 (fresh_param env (Suc n)) # ns)\<rparr>"
    by blast
  let ?s = "[B, C, H, W]"
  have conv: "\<exists>y. Conv2d env C C 3 1 1 w u = Inr y \<and> shape env y = ?s" if "shape env u = ?s" for w u
  proof -
    have "\<exists>y. Conv2d env C C 3 1 1 w u = Inr y
            \<and> shape env y = [B, C, (H + 2 * 1 - 3) div 1 + 1, (W + 2 * 1 - 3) div 1 + 1]"
      using pos by (intro conv_shape_ruleD [OF rules(1) that]) simp_all
    moreover have "(H + 2 * 1 - 3) div 1 + 1 = H" "(W + 2 * 1 - 3) div 1 + 1 = W"
      using pos by simp_all
    ultimately show ?thesis by simp
  qed
  have norm: "\<forall>m\<in>set ns. \<forall>u. shape env u = ?s \<longrightarrow> (\<exists>y. m u = Inr y \<and> shape env y = ?s)"
    by (rule norm_layers_keep_shape [OF rules(2) ns]) simp_all
  have actk: "\<exists>y. a u = Inr y \<and> shape env y = ?s" if "shape env u = ?s" for u
    using act that unfolding shape_preserving_def by metis
  have k1: "\<forall>m\<in>set (Conv2d env C C 3 1 1 (fresh_param env n) # ns @ [a]).
              \<forall>u. shape env u = ?s \<longrightarrow> (\<exists>y. m u = Inr y \<and> shape env y = ?s)"
    using conv norm actk by auto
  have k2: "\<forall>m\<in>set (Conv2d env C C 3 1 1 (fresh_param env (Suc n)) # ns).
              \<forall>u. shape env u = ?s \<longrightarrow> (\<exists>y. m u = Inr y \<and> shape env y = ?s)"
    using conv norm by auto
  from sequential_keeps_shape [OF k1 x] obtain y1 where
    y1: "conv1 blk x = Inr y1" "shape env y1 = ?s"
    by (auto simp add: blk)
  from sequential_keeps_shape [OF k2 y1(2)] obtain y2 where
    y2: "conv2 blk y1 = Inr y2" "shape env y2 = ?s"
    by (auto simp add: blk)
  from rules(3) y2(2) x obtain z where z: "tensor_add env y2 x = Inr z" "shape env z = ?s"
    unfolding add_shape_rule_def by metis
  from actk [OF z(2)] obtain y where y: "a z = Inr y" "shape env y = ?s"
    by blast
  have "act blk = a" by (simp add: blk)
  then have "ResBlock_forward env blk x = Inr y"
    using y1(1) y2(1) z(1) y(1) by (simp add: ResBlock_forward_def and_then_Inr)
  with y(2) show ?thesis by blast
qed

theorem ResBlock_forward_shape_witness:
  "conv_shape_rule shape_env \<and> norm_shape_rule shape_env \<and> add_shape_rule shape_env
   \<and> shape_preserving shape_env Inr
   \<and> (\<exists>blk. fst (ResBlock_init shape_env 3 Inr (Some ''BN'') ''basic'' 0) = Inr blk
        \<and> ResBlock_forward shape_env blk [2, 3, 5, 7] = Inr [2, 3, 5, 7])"
proof -
  have good: "''basic'' \<in> set [''basic'', ''bottleneck'']" by simp
  obtain blk where blk: "fst (ResBlock_init shape_env 3 Inr (Some ''BN'') ''basic'' 0) = Inr blk"
    by (simp add: ResBlock_init_valid [OF good] norm_layers_shape_BN)
  have x: "shape shape_env [2, 3, 5, 7] = [2, 3, 5, 7]"
    by (simp add: shape_env_def)
  have "\<exists>y. ResBlock_forward shape_env blk [2, 3, 5, 7] = Inr y \<and> shape shape_env y = [2, 3, 5, 7]"
    by (rule ResBlock_forward_shape
          [OF shape_env_conv_rule shape_env_norm_rule shape_env_add_rule shape_env_identity blk x])
       simp_all
  then have "ResBlock_forward shape_env blk [2, 3, 5, 7] = Inr [2, 3, 5, 7]"
    by (auto simp add: shape_env_def)
  with blk shape_env_conv_rule shape_env_norm_rule shape_env_add_rule shape_env_identity
  show ?thesis by blast
qed

text \<open>
  Claim C7. In a framework that follows the shape rules, a \<^verbatim>\<open>ResFCBlock\<close> and a
  \<^verbatim>\<open>ResFCBlock2\<close> built for \<open>C\<close> channels with a shape-preserving activation, applied
  to a tensor of shape \<open>[B, C]\<close> with positive \<open>C\<close>, return a tensor of the shape
  \<open>[B, C]\<close>: both linear layers map \<open>C\<close> features to \<open>C\<close> features.
\<close>

theorem ResFCBlock_forward_shape:
  assumes rules: "linear_shape_rule env" "norm_shape_rule env" "add_shape_rule env"
    and act: "shape_preserving env a"
    and x: "shape env x = [B, C]"
    and pos: "0 < C"
  shows "(\<forall>blk. fst (ResFCBlock_init env C a nt n) = Inr blk \<longrightarrow>
            (\<exists>y. ResFCBlock_forward env blk x = Inr y \<and> shape env y = [B, C]))
       \<and> (\<forall>blk. fst (ResFCBlock2_init env C a nt n) = Inr blk \<longrightarrow>
            (\<exists>y. ResFCBlock2_forward env blk x = Inr y \<and> shape env y = [B, C]))"
proof (intro conjI allI impI)
  let ?s = "[B, C]"
  have lin: "\<exists>y. Linear env C C w u = Inr y \<and> shape env y = ?s" if "shape env u = ?s" for w u
    by (rule linear_shape_ruleD [OF rules(1) that pos pos])
  have actk: "\<exists>y. a u = Inr y \<and> shape env y = ?s" if "shape env u = ?s" for u
    using act that unfolding shape_preserving_def by metis
  {
    fix blk
    assume init: "fst (ResFCBlock_init env C a nt n) = Inr blk"
    from ResFCBlock_init_InrD [OF init] obtain ns where
      ns: "norm_layers env C nt = Inr ns" and
      blk: "blk = \<lparr>fcb_act = a,
                   fcb_fc1 = sequential (Linear env C C (fresh_param env n) # ns @ [a]),
                   fcb_fc2 = sequential (Linear env C C (fresh_param env (Suc n)) # ns)\<rparr>"
      by blast
    have norm: "\<forall>m\<in>set ns. \<forall>u. shape env u = ?s \<longrightarrow> (\<exists>y. m u = Inr y \<and> shape env y = ?s)"
      by (rule norm_layers_keep_shape [OF rules(2) ns]) simp_all
    have k1: "\<forall>m\<in>set (Linear env C C (fresh_param env n) # ns @ [a]).
                \<forall>u. shape env u = ?s \<longrightarrow> (\<exists>y. m u = Inr y \<and> shape env y = ?s)"
      using lin norm actk by auto
    have k2: "\<forall>m\<in>set (Linear env C C (fresh_param env (Suc n)) # ns).
                \<forall>u. shape env u = ?s \<longrightarrow> (\<exists>y. m u = Inr y \<and> shape env y = ?s)"
      using lin norm by auto
    from sequential_keeps_shape [OF k1 x] obtain y1 where
      y1: "fcb_fc1 blk x = Inr y1" "shape env y1 = ?s"
      by (auto simp add: blk)
    from sequential_keeps_shape [OF k2 y1(2)] obtain y2 where
      y2: "fcb_fc2 blk y1 = Inr y2" "shape env y2 = ?s"
      by (auto simp add: blk)
    from rules(3) y2(2) x obtain z where z: "tensor_add env y2 x = Inr z" "shape env z = ?s"
      unfolding add_shape_rule_def by metis
    from actk [OF z(2)] obtain y where y: "a z = Inr y" "shape env y = ?s"
      by blast
    have "fcb_act blk = a" by (simp add: blk)
    then have "ResFCBlock_forward env blk x = Inr y"
      using y1(1) y2(1) z(1) y(1) by (simp add: ResFCBlock_forward_def and_then_Inr)
    with y(2) show "\<exists>y. ResFCBlock_forward env blk x = Inr y \<and> shape env y = [B, C]"
      by blast
  next
    fix blk
    assume init: "fst (ResFCBlock2_init env C a nt n) = Inr blk"
    from ResFCBlock2_init_InrD [OF init] obtain mk where
      mk: "build_normalization env nt = Inr mk" and
      blk: "blk = \<lparr>fcb2_act = a,
                   fcb2_fc1 = sequential [Linear env C C (fresh_param env n), a],
                   fcb2_fc2 = sequential [Linear env C C (fresh_param env (Suc n))],
                   fcb2_norm = mk C\<rparr>"
      by blast
    have k1: "\<forall>m\<in>set [Linear env C C (fresh_param env n), a].
                \<forall>u. shape env u = ?s \<longrightarrow> (\<exists>y. m u = Inr y \<and> shape env y = ?s)"
      using lin actk by auto
    have k2: "\<forall>m\<in>set [Linear env C C (fresh_param env (Suc n))].
                \<forall>u. shape env u = ?s \<longrightarrow> (\<exists>y. m u = Inr y \<and> shape env y = ?s)"
      using lin by auto
    from sequential_keeps_shape [OF k1 x] obtain y1 where
      y1: "fcb2_fc1 blk x = Inr y1" "shape env y1 = ?s"
      by (auto simp add: blk)
    from sequential_keeps_shape [OF k2 y1(2)] obtain y2 where
      y2: "fcb2_fc2 blk y1 = Inr y2" "shape env y2 = ?s"
      by (auto simp add: blk)
    from rules(3) y2(2) x obtain z where z: "tensor_add env y2 x = Inr z" "shape env z = ?s"
      unfolding add_shape_rule_def by metis
    have "2 \<le> length (shape env z)" "shape env z ! 1 = C"
      by (simp_all add: z(2))
    with rules(2) mk obtain y where y: "mk C z = Inr y" "shape env y = shape env z"
      unfolding norm_shape_rule_def by metis
    have "fcb2_norm blk = mk C" by (simp add: blk)
    then have "ResFCBlock2_forward env blk x = Inr y"
      using y1(1) y2(1) z(1) y(1) by (simp add: ResFCBlock2_forward_def and_then_Inr)
    with y(2) z(2) show "\<exists>y. ResFCBlock2_forward env blk x = Inr y \<and> shape env y = [B, C]"
      by auto
  }
qed

theorem ResFCBlock_forward_shape_witness:
  "linear_shape_rule shape_env \<and> norm_shape_rule shape_env \<and> add_shape_rule shape_env
   \<and> shape_preserving shape_env Inr
   \<and> (\<exists>blk. fst (ResFCBlock_init shape_env 3 Inr (Some ''BN'') 0) = Inr blk
        \<and> ResFCBlock_forward shape_env blk [2, 3] = Inr [2, 3])
   \<and> (\<exists>blk. fst (ResFCBlock2_init shape_env 3 Inr (Some ''LN'') 0) = Inr blk
        \<and> ResFCBlock2_forward shape_env blk [2, 3] = Inr [2, 3])"
proof -
  have ln: "build_normalization shape_env (Some ''LN'') = Inr (\<lambda>c x. Inr x)"
    by (simp add: shape_env_def known_normalization_LN)
  obtain blk where blk: "fst (ResFCBlock_init shape_env 3 Inr (Some ''BN'') 0) = Inr blk"
    by (simp add: ResFCBlock_init_eq norm_layers_shape_BN)
  obtain blk2 where blk2: "fst (ResFCBlock2_init shape_env 3 Inr (Some ''LN'') 0) = Inr blk2"
    by (simp add: ResFCBlock2_init_eq ln)
  have x: "shape shape_env [2, 3] = [2, 3]"
    by (simp add: shape_env_def)
  have pos: "0 < (3::nat)" by simp
  note bn = ResFCBlock_forward_shape
    [OF shape_env_linear_rule shape_env_norm_rule shape_env_add_rule shape_env_identity x pos,
     of "Some ''BN''" 0]
  note lnn = ResFCBlock_forward_shape
    [OF shape_env_linear_rule shape_env_norm_rule shape_env_add_rule shape_env_identity x pos,
     of "Some ''LN''" 0]
  from bn blk have "\<exists>y. ResFCBlock_forward shape_env blk [2, 3] = Inr y \<and> shape shape_env y = [2, 3]"
    by blast
  then have 1: "ResFCBlock_forward shape_env blk [2, 3] = Inr [2, 3]"
    by (auto simp add: shape_env_def)
  from lnn blk2 have "\<exists>y. ResFCBlock2_forward shape_env blk2 [2, 3] = Inr y \<and> shape shape_env y = [2, 3]"
    by blast
  then have 2: "ResFCBlock2_forward shape_env blk2 [2, 3] = Inr [2, 3]"
    by (auto simp add: shape_env_def)
  from 1 2 blk blk2 shape_env_linear_rule shape_env_norm_rule shape_env_add_rule shape_env_identity
  show ?thesis by blast
qed

end
